theory Spec2Isabelle
  imports Complex_Main
begin

section \<open>Fee calculator\<close>

text \<open>
  The program computes with Python floats. They are modelled as exact reals: every
  result below is about the arithmetic the formulas denote, not about rounding.
  The three fee functions contain no \<^verbatim>\<open>raise\<close> and no guard, so each is a plain
  function from the amount to the fee.
\<close>

text \<open>\<^verbatim>\<open>return max(2, 0.2 * 0.0001 * usd_amount)\<close>\<close>

definition calculate_ib_fx_fee :: "real \<Rightarrow> real" where
  "calculate_ib_fx_fee usd_amount = max 2 (0.2 * 0.0001 * usd_amount)"

text \<open>
  \<^verbatim>\<open>
  if face_value <= 1000000:
      return max(0.002 * 0.0001 * face_value, 5)
  else:
      return max(0.0001 * face_value, 5)
  \<close>
\<close>

definition calculate_ib_bond_fee :: "real \<Rightarrow> real" where
  "calculate_ib_bond_fee face_value =
     (if face_value \<le> 1000000
      then max (0.002 * 0.0001 * face_value) 5
      else max (0.0001 * face_value) 5)"

text \<open>
  \<^verbatim>\<open>
  commission = max(0.0008 * face_value, 2)
  platform_fee = min(max(0.0004 * face_value, 2), 15)
  return commission + platform_fee
  \<close>
\<close>

definition calculate_futu_bond_fee :: "real \<Rightarrow> real" where
  "calculate_futu_bond_fee face_value =
     (let commission = max (0.0008 * face_value) 2;
          platform_fee = min (max (0.0004 * face_value) 2) 15
      in commission + platform_fee)"

section \<open>Return calculator\<close>

text \<open>
  \<^verbatim>\<open>
  def calculate_usd_received(capital_hkd, fx_rate, fx_fee_function=None):
      usd_amount = capital_hkd * fx_rate
      if fx_fee_function:
          fee = fx_fee_function(usd_amount)
          usd_amount -= fee
      return usd_amount
  \<close>
  The optional callable is an option: \<open>None\<close> is the default argument, and a
  function object is always truthy.
\<close>

definition calculate_usd_received :: "real \<Rightarrow> real \<Rightarrow> (real \<Rightarrow> real) option \<Rightarrow> real" where
  "calculate_usd_received capital_hkd fx_rate fx_fee_function =
     (let usd_amount = capital_hkd * fx_rate
      in case fx_fee_function of
           None \<Rightarrow> usd_amount
         | Some f \<Rightarrow> (let fee = f usd_amount in usd_amount - fee))"

definition calculate_ib_money_market_return :: "real \<Rightarrow> real \<Rightarrow> real" where
  "calculate_ib_money_market_return principal_usd fed_rate = principal_usd * (fed_rate - 0.005)"

definition calculate_futu_money_market_return :: "real \<Rightarrow> real \<Rightarrow> real" where
  "calculate_futu_money_market_return principal_usd annualized_return =
     principal_usd * (annualized_return / 100)"

definition calculate_hk_money_market_return :: "real \<Rightarrow> real \<Rightarrow> real" where
  "calculate_hk_money_market_return capital_hkd annualized_return =
     capital_hkd * (annualized_return / 100)"

section \<open>Comparison engine: the body of \<^verbatim>\<open>main\<close>\<close>

text \<open>
  The six numbers read from the console, after \<^verbatim>\<open>float(input(...) or default)\<close> has
  succeeded. Nothing in \<^verbatim>\<open>main\<close> checks their sign.
\<close>

record user_inputs =
  capital_hkd :: real
  ib_fx_rate :: real
  futu_fx_rate :: real
  futu_annualized_return_usd :: real
  futu_annualized_return_hkd :: real
  preferential_rate_hkd :: real

text \<open>
  The ways \<^verbatim>\<open>main\<close> stops without a result: the two early returns after a failed
  fetch, and the exception of a float division by zero.
\<close>

datatype error =
    Failed_to_retrieve_bond_rates
  | Failed_to_retrieve_fed_rate
  | ZeroDivisionError

text \<open>The lines printed after the currency question (numbers unformatted).\<close>

datatype message =
    Best_return_in_USD real string
  | Converted_return_from_HKD real real
  | Best_return_in_HKD real string
  | Converted_return_from_USD real real
  | Invalid_currency_choice

text \<open>The variables of \<^verbatim>\<open>main\<close> that the comparison produces, under their own names.\<close>

record outcome =
  usd_received_ib :: real
  usd_received_futu :: real
  ib_money_market_return :: real
  futu_money_market_return_usd :: real
  ib_bond_return :: real
  futu_bond_return :: real
  futu_money_market_return_hkd :: real
  preferential_return :: real
  best_ib_return :: real
  best_ib_option :: string
  best_futu_return_usd :: real
  best_futu_option_usd :: string
  total_ib_return :: real
  total_futu_return_usd :: real
  total_preferential_return :: real
  total_futu_return_hkd :: real
  best_usd_return :: real
  best_hkd_return :: real
  exchange_rate_threshold :: real
  best_usd_method :: string
  best_hkd_method :: string
  messages :: "message list"
  final_result :: string

text \<open>
  Lines 141 to 146, the comparison for IB:
  \<^verbatim>\<open>
  if ib_money_market_return > ib_bond_return:
      best_ib_return = ib_money_market_return
      best_ib_option = "Money Market Fund (USD)"
  else:
      best_ib_return = ib_bond_return
      best_ib_option = "Bond (USD)"
  \<close>
\<close>

definition best_ib :: "real \<Rightarrow> real \<Rightarrow> real \<times> string" where
  "best_ib ib_mm_return ib_bond_ret =
     (if ib_mm_return > ib_bond_ret
      then (ib_mm_return, ''Money Market Fund (USD)'')
      else (ib_bond_ret, ''Bond (USD)''))"

text \<open>Lines 149 to 154, the same comparison for FUTU in USD.\<close>

definition best_futu_usd :: "real \<Rightarrow> real \<Rightarrow> real \<times> string" where
  "best_futu_usd futu_mm_return_usd futu_bond_ret =
     (if futu_mm_return_usd > futu_bond_ret
      then (futu_mm_return_usd, ''Money Market Fund (USD)'')
      else (futu_bond_ret, ''Bond (USD)''))"

text \<open>
  Lines 196 to 204, the two method labels:
  \<^verbatim>\<open>
  if best_usd_return == total_ib_return:
      best_usd_method = f"IB with {best_ib_option}"
  else:
      best_usd_method = f"FUTU with {best_futu_option_usd}"
  if best_hkd_return == total_preferential_return:
      best_hkd_method = "SCB Preferential Rate"
  else:
      best_hkd_method = "FUTU HK Money Market Fund"
  \<close>
\<close>

definition usd_method :: "real \<Rightarrow> real \<Rightarrow> string \<Rightarrow> string \<Rightarrow> string" where
  "usd_method best_usd total_ib ib_option futu_option_usd =
     (if best_usd = total_ib
      then ''IB with '' @ ib_option
      else ''FUTU with '' @ futu_option_usd)"

definition hkd_method :: "real \<Rightarrow> real \<Rightarrow> string" where
  "hkd_method best_hkd total_preferential =
     (if best_hkd = total_preferential
      then ''SCB Preferential Rate''
      else ''FUTU HK Money Market Fund'')"

text \<open>
  Lines 207 to 220. \<open>preferred_currency\<close> is the answer after
  \<^verbatim>\<open>.strip().upper()\<close>. The HKD branch divides by the threshold, which raises
  when the threshold is zero.
  \<^verbatim>\<open>
  if preferred_currency == "USD":
      print(... best_usd_return ... best_usd_method ...)
      if best_usd_return < best_hkd_return * exchange_rate_threshold:
          converted_return = best_hkd_return * exchange_rate_threshold
          print(... converted_return ... exchange_rate_threshold ...)
  elif preferred_currency == "HKD":
      print(... best_hkd_return ... best_hkd_method ...)
      if best_hkd_return < best_usd_return / exchange_rate_threshold:
          converted_return = best_usd_return / exchange_rate_threshold
          print(... converted_return ... exchange_rate_threshold ...)
  else:
      print("Invalid input. Please choose either 'USD' or 'HKD'.")
  \<close>
\<close>

definition currency_messages ::
  "string \<Rightarrow> real \<Rightarrow> real \<Rightarrow> real \<Rightarrow> string \<Rightarrow> string \<Rightarrow> error + message list" where
  "currency_messages preferred_currency best_usd best_hkd threshold usd_meth hkd_meth =
     (if preferred_currency = ''USD'' then
        Inr (Best_return_in_USD best_usd usd_meth #
             (if best_usd < best_hkd * threshold
              then [Converted_return_from_HKD (best_hkd * threshold) threshold]
              else []))
      else if preferred_currency = ''HKD'' then
        (if threshold = 0 then Inl ZeroDivisionError
         else Inr (Best_return_in_HKD best_hkd hkd_meth #
                   (if best_hkd < best_usd / threshold
                    then [Converted_return_from_USD (best_usd / threshold) threshold]
                    else [])))
      else Inr [Invalid_currency_choice])"

text \<open>
  Lines 226 to 233, the overall recommendation:
  \<^verbatim>\<open>
  if total_ib_return > total_futu_return_usd and total_ib_return > total_preferential_return
        and total_ib_return > total_futu_return_hkd:
      final_result = f"IB offers the better return by investing in {best_ib_option}."
  elif total_futu_return_usd > total_ib_return
        and total_futu_return_usd > total_preferential_return
        and total_futu_return_usd > total_futu_return_hkd:
      final_result = f"FUTU offers the better return by investing in {best_futu_option_usd}."
  elif total_futu_return_hkd > total_ib_return
        and total_futu_return_hkd > total_preferential_return
        and total_futu_return_hkd > total_futu_return_usd:
      final_result = "FUTU HK Money Market Fund offers the better return."
  else:
      final_result = "SCB Preferential Rate offers the better return."
  \<close>
\<close>

definition determine_final_result ::
  "real \<Rightarrow> real \<Rightarrow> real \<Rightarrow> real \<Rightarrow> string \<Rightarrow> string \<Rightarrow> string" where
  "determine_final_result total_ib total_futu_usd total_preferential total_futu_hkd
       ib_option futu_option_usd =
     (if total_ib > total_futu_usd \<and> total_ib > total_preferential \<and> total_ib > total_futu_hkd
      then ''IB offers the better return by investing in '' @ ib_option @ ''.''
      else if total_futu_usd > total_ib \<and> total_futu_usd > total_preferential
              \<and> total_futu_usd > total_futu_hkd
      then ''FUTU offers the better return by investing in '' @ futu_option_usd @ ''.''
      else if total_futu_hkd > total_ib \<and> total_futu_hkd > total_preferential
              \<and> total_futu_hkd > total_futu_usd
      then ''FUTU HK Money Market Fund offers the better return.''
      else ''SCB Preferential Rate offers the better return.'')"

text \<open>
  \<^verbatim>\<open>main\<close> from the fetched rates on. \<open>bond_rate_1y\<close>, \<open>bond_rate_10y\<close> and
  \<open>fetched_fed_rate\<close> are what \<^verbatim>\<open>get_bond_rate\<close> and \<^verbatim>\<open>get_fed_rate\<close> returned
  (\<open>None\<close> as in the source). The division of line 193 raises on a zero divisor;
  the statements after it run only when it did not.
\<close>

definition main ::
  "user_inputs \<Rightarrow> real option \<Rightarrow> real option \<Rightarrow> real option \<Rightarrow> string \<Rightarrow> error + outcome" where
  "main u bond_rate_1y bond_rate_10y fetched_fed_rate preferred_currency =
     (case (bond_rate_1y, bond_rate_10y) of
        (Some rate_1y, Some rate_10y) \<Rightarrow>
          (let best_bond_rate = max rate_1y rate_10y in
           case fetched_fed_rate of
             None \<Rightarrow> Inl Failed_to_retrieve_fed_rate
           | Some fed_rate \<Rightarrow>
              (let usd_ib = calculate_usd_received (capital_hkd u) (ib_fx_rate u)
                              (Some calculate_ib_fx_fee);
                   usd_futu = calculate_usd_received (capital_hkd u) (futu_fx_rate u) None;
                   ib_mm = calculate_ib_money_market_return usd_ib fed_rate;
                   futu_mm_usd = calculate_futu_money_market_return usd_futu
                                   (futu_annualized_return_usd u);
                   ib_bond_fee = calculate_ib_bond_fee usd_ib;
                   futu_bond_fee = calculate_futu_bond_fee usd_futu;
                   ib_bond = usd_ib * (best_bond_rate / 100) - ib_bond_fee;
                   futu_bond = usd_futu * (best_bond_rate / 100) - futu_bond_fee;
                   futu_mm_hkd = calculate_hk_money_market_return (capital_hkd u)
                                   (futu_annualized_return_hkd u);
                   preferential = capital_hkd u * (preferential_rate_hkd u / 100);
                   (best_ib_ret, best_ib_opt) = best_ib ib_mm ib_bond;
                   (best_futu_ret, best_futu_opt) = best_futu_usd futu_mm_usd futu_bond;
                   total_ib = usd_ib + best_ib_ret;
                   total_futu_usd = usd_futu + best_futu_ret;
                   total_preferential = capital_hkd u + preferential;
                   total_futu_hkd = capital_hkd u + futu_mm_hkd;
                   best_usd = max total_ib total_futu_usd;
                   best_hkd = max total_preferential total_futu_hkd
               in if best_hkd = 0 then Inl ZeroDivisionError
                  else
                   (let threshold = best_usd / best_hkd;
                        usd_meth = usd_method best_usd total_ib best_ib_opt best_futu_opt;
                        hkd_meth = hkd_method best_hkd total_preferential
                    in case currency_messages preferred_currency best_usd best_hkd threshold
                              usd_meth hkd_meth of
                         Inl e \<Rightarrow> Inl e
                       | Inr msgs \<Rightarrow>
                           Inr \<lparr> usd_received_ib = usd_ib,
                                 usd_received_futu = usd_futu,
                                 ib_money_market_return = ib_mm,
                                 futu_money_market_return_usd = futu_mm_usd,
                                 ib_bond_return = ib_bond,
                                 futu_bond_return = futu_bond,
                                 futu_money_market_return_hkd = futu_mm_hkd,
                                 preferential_return = preferential,
                                 best_ib_return = best_ib_ret,
                                 best_ib_option = best_ib_opt,
                                 best_futu_return_usd = best_futu_ret,
                                 best_futu_option_usd = best_futu_opt,
                                 total_ib_return = total_ib,
                                 total_futu_return_usd = total_futu_usd,
                                 total_preferential_return = total_preferential,
                                 total_futu_return_hkd = total_futu_hkd,
                                 best_usd_return = best_usd,
                                 best_hkd_return = best_hkd,
                                 exchange_rate_threshold = threshold,
                                 best_usd_method = usd_meth,
                                 best_hkd_method = hkd_meth,
                                 messages = msgs,
                                 final_result =
                                   determine_final_result total_ib total_futu_usd
                                     total_preferential total_futu_hkd
                                     best_ib_opt best_futu_opt \<rparr>)))
      | _ \<Rightarrow> Inl Failed_to_retrieve_bond_rates)"


section \<open>Example runs\<close>



text \<open>
  A run in which both brokerages have a money-market return equal to their bond return
  (bond rates 0.5 and 0.5, fed rate 0.005): 1000 * 1.002 - 2 = 1000 USD at IB with
  returns 0 and 5 - 5, 1000 USD at FUTU with returns 1 and 5 - 4.
\<close>

definition double_tie_inputs :: user_inputs where
  "double_tie_inputs =
     \<lparr> capital_hkd = 1000, ib_fx_rate = 1.002, futu_fx_rate = 1,
       futu_annualized_return_usd = 0.1, futu_annualized_return_hkd = 3.8,
       preferential_rate_hkd = 3.5 \<rparr>"

definition double_tie_outcome :: outcome where
  "double_tie_outcome =
     \<lparr> usd_received_ib = 1000, usd_received_futu = 1000,
       ib_money_market_return = 0, futu_money_market_return_usd = 1,
       ib_bond_return = 0, futu_bond_return = 1,
       futu_money_market_return_hkd = 38, preferential_return = 35,
       best_ib_return = 0, best_ib_option = ''Bond (USD)'',
       best_futu_return_usd = 1, best_futu_option_usd = ''Bond (USD)'',
       total_ib_return = 1000, total_futu_return_usd = 1001,
       total_preferential_return = 1035, total_futu_return_hkd = 1038,
       best_usd_return = 1001, best_hkd_return = 1038,
       exchange_rate_threshold = 1001 / 1038,
       best_usd_method = ''FUTU with Bond (USD)'',
       best_hkd_method = ''FUTU HK Money Market Fund'',
       messages = [Best_return_in_USD 1001 ''FUTU with Bond (USD)''],
       final_result = ''FUTU HK Money Market Fund offers the better return.'' \<rparr>"



text \<open>A capital of 0 with the other defaults: both HKD totals are 0.\<close>

definition zero_capital_inputs :: user_inputs where
  "zero_capital_inputs =
     \<lparr> capital_hkd = 0, ib_fx_rate = 0.128, futu_fx_rate = 0.12785,
       futu_annualized_return_usd = 4.8491, futu_annualized_return_hkd = 3.8,
       preferential_rate_hkd = 3.5 \<rparr>"

text \<open>
  A run in which the two USD totals are equal and the FUTU HK total is the largest of
  the four (bond rates 0 and 0, fed rate 0.005).
\<close>

definition usd_tie_inputs :: user_inputs where
  "usd_tie_inputs =
     \<lparr> capital_hkd = 1000, ib_fx_rate = 1.002, futu_fx_rate = 1,
       futu_annualized_return_usd = 0, futu_annualized_return_hkd = 3.8,
       preferential_rate_hkd = 3.5 \<rparr>"

definition usd_tie_outcome :: outcome where
  "usd_tie_outcome =
     \<lparr> usd_received_ib = 1000, usd_received_futu = 1000,
       ib_money_market_return = 0, futu_money_market_return_usd = 0,
       ib_bond_return = - 5, futu_bond_return = - 4,
       futu_money_market_return_hkd = 38, preferential_return = 35,
       best_ib_return = 0, best_ib_option = ''Money Market Fund (USD)'',
       best_futu_return_usd = 0, best_futu_option_usd = ''Money Market Fund (USD)'',
       total_ib_return = 1000, total_futu_return_usd = 1000,
       total_preferential_return = 1035, total_futu_return_hkd = 1038,
       best_usd_return = 1000, best_hkd_return = 1038,
       exchange_rate_threshold = 1000 / 1038,
       best_usd_method = ''IB with Money Market Fund (USD)'',
       best_hkd_method = ''FUTU HK Money Market Fund'',
       messages = [Best_return_in_USD 1000 ''IB with Money Market Fund (USD)''],
       final_result = ''FUTU HK Money Market Fund offers the better return.'' \<rparr>"

text \<open>
  A run in which all four totals are 1000 (all three return rates 0, bond rates 0 and 0,
  fed rate 0.005).
\<close>

definition four_way_tie_inputs :: user_inputs where
  "four_way_tie_inputs =
     \<lparr> capital_hkd = 1000, ib_fx_rate = 1.002, futu_fx_rate = 1,
       futu_annualized_return_usd = 0, futu_annualized_return_hkd = 0,
       preferential_rate_hkd = 0 \<rparr>"

definition four_way_tie_outcome :: outcome where
  "four_way_tie_outcome =
     \<lparr> usd_received_ib = 1000, usd_received_futu = 1000,
       ib_money_market_return = 0, futu_money_market_return_usd = 0,
       ib_bond_return = - 5, futu_bond_return = - 4,
       futu_money_market_return_hkd = 0, preferential_return = 0,
       best_ib_return = 0, best_ib_option = ''Money Market Fund (USD)'',
       best_futu_return_usd = 0, best_futu_option_usd = ''Money Market Fund (USD)'',
       total_ib_return = 1000, total_futu_return_usd = 1000,
       total_preferential_return = 1000, total_futu_return_hkd = 1000,
       best_usd_return = 1000, best_hkd_return = 1000,
       exchange_rate_threshold = 1,
       best_usd_method = ''IB with Money Market Fund (USD)'',
       best_hkd_method = ''SCB Preferential Rate'',
       messages = [Best_return_in_HKD 1000 ''SCB Preferential Rate''],
       final_result = ''SCB Preferential Rate offers the better return.'' \<rparr>"

section \<open>Properties of the fee calculator\<close>

lemma ib_fx_fee_mono: "x1 \<le> x2 \<Longrightarrow> calculate_ib_fx_fee x1 \<le> calculate_ib_fx_fee x2"
  unfolding calculate_ib_fx_fee_def by (intro max.mono) simp_all

lemma ib_bond_fee_mono: "x1 \<le> x2 \<Longrightarrow> calculate_ib_bond_fee x1 \<le> calculate_ib_bond_fee x2"
  by (auto simp add: calculate_ib_bond_fee_def max_def)

lemma futu_bond_fee_mono:
  "x1 \<le> x2 \<Longrightarrow> calculate_futu_bond_fee x1 \<le> calculate_futu_bond_fee x2"
  unfolding calculate_futu_bond_fee_def Let_def
  by (intro add_mono max.mono min.mono) simp_all

text \<open>
  Claim C5 (fee monotonicity). For all \<open>x2 > x1 \<ge> 0\<close> each of the three fee functions
  gives at \<open>x2\<close> a fee at least as large as at \<open>x1\<close>; for the IB bond fee this
  includes a pair on either side of the tier boundary at 1,000,000.
\<close>

theorem fee_monotonicity:
  assumes "0 \<le> x1" and "x1 < x2"
  shows "calculate_ib_fx_fee x1 \<le> calculate_ib_fx_fee x2
       \<and> calculate_ib_bond_fee x1 \<le> calculate_ib_bond_fee x2
       \<and> calculate_futu_bond_fee x1 \<le> calculate_futu_bond_fee x2"
  using assms by (simp add: ib_fx_fee_mono ib_bond_fee_mono futu_bond_fee_mono)

text \<open>The pair 1,000,000 and 1,000,001 straddles the tier boundary: the fee goes from 5 to 100.0001.\<close>

theorem fee_monotonicity_witness:
  "(0::real) \<le> 1000000 \<and> (1000000::real) < 1000001
   \<and> calculate_ib_fx_fee 1000000 \<le> calculate_ib_fx_fee 1000001
   \<and> calculate_ib_bond_fee 1000000 \<le> calculate_ib_bond_fee 1000001
   \<and> calculate_futu_bond_fee 1000000 \<le> calculate_futu_bond_fee 1000001
   \<and> calculate_ib_bond_fee 1000000 = 5 \<and> calculate_ib_bond_fee 1000001 = 100.0001"
  using fee_monotonicity [of 1000000 1000001]
  by (simp add: calculate_ib_bond_fee_def)

text \<open>
  Claim C6 (tier boundary of the IB bond fee). A face value of at most 1,000,000 is
  charged \<open>max (0.002e-4 * face_value) 5\<close>, so that the fee at exactly 1,000,000 is 5;
  every face value above 1,000,000 is charged \<open>max (1e-4 * face_value) 5\<close>.
\<close>

theorem ib_bond_fee_tier_boundary:
  "(face_value \<le> 1000000 \<longrightarrow>
      calculate_ib_bond_fee face_value = max (0.0000002 * face_value) 5)
   \<and> calculate_ib_bond_fee 1000000 = 5
   \<and> (face_value > 1000000 \<longrightarrow>
      calculate_ib_bond_fee face_value = max (0.0001 * face_value) 5)"
  by (simp add: calculate_ib_bond_fee_def)

theorem ib_bond_fee_tier_boundary_witness:
  "(1000000::real) \<le> 1000000 \<and> calculate_ib_bond_fee 1000000 = 5
   \<and> (1000000.01::real) > 1000000 \<and> calculate_ib_bond_fee 1000000.01 = 100.000001"
  using ib_bond_fee_tier_boundary [of 1000000] ib_bond_fee_tier_boundary [of "1000000.01"]
  by simp

text \<open>
  Claim C7 (the FX fee is computed on the gross converted amount). With a fee function
  \<open>f\<close> the amount received is \<open>capital * fx_rate - f (capital * fx_rate)\<close>; without
  one it is exactly \<open>capital * fx_rate\<close>.
\<close>

theorem usd_received_fee_on_gross:
  "calculate_usd_received capital fx_rate (Some f) = capital * fx_rate - f (capital * fx_rate)
   \<and> calculate_usd_received capital fx_rate None = capital * fx_rate"
  by (simp add: calculate_usd_received_def Let_def)

text \<open>
  Claim C8 says that the IB FX fee fails on a negative amount. The function has no
  guard: at \<open>- 1\<close> it returns the fee 2.
\<close>

theorem ib_fx_fee_negative_counterexample: "calculate_ib_fx_fee (- 1) = 2"
  by (simp add: calculate_ib_fx_fee_def)

text \<open>
  Claim C8, as amended: the IB FX fee accepts a negative amount and returns the
  floor fee 2 for it.
\<close>

theorem ib_fx_fee_negative_returns_floor:
  "usd_amount < 0 \<Longrightarrow> calculate_ib_fx_fee usd_amount = 2"
  by (simp add: calculate_ib_fx_fee_def max_def)

theorem ib_fx_fee_negative_returns_floor_witness:
  "(- 256000 :: real) < 0 \<and> calculate_ib_fx_fee (- 256000) = 2"
  using ib_fx_fee_negative_returns_floor [of "- 256000"] by simp

text \<open>
  Claim C9 (fee floors on every input). The three fee functions are total, with no
  error branch, and on every real amount, negative ones included, the IB FX fee is at
  least 2 (exactly 2 up to 100,000), the IB bond fee at least 5 and the FUTU bond fee at
  least 4. Below the proportional region the last two are exactly their floor as well:
  the IB bond fee is 5 up to 1,000,000 and the FUTU bond fee is 4 up to 2,500.
\<close>

theorem fee_floors:
  "2 \<le> calculate_ib_fx_fee x
   \<and> (x \<le> 100000 \<longrightarrow> calculate_ib_fx_fee x = 2)
   \<and> 5 \<le> calculate_ib_bond_fee x
   \<and> (x \<le> 1000000 \<longrightarrow> calculate_ib_bond_fee x = 5)
   \<and> 4 \<le> calculate_futu_bond_fee x
   \<and> (x \<le> 2500 \<longrightarrow> calculate_futu_bond_fee x = 4)"
  by (simp add: calculate_ib_fx_fee_def calculate_ib_bond_fee_def
        calculate_futu_bond_fee_def Let_def max_def min_def)

theorem fee_floors_witness:
  "2 \<le> calculate_ib_fx_fee (- 7) \<and> (- 7 :: real) \<le> 100000 \<and> calculate_ib_fx_fee (- 7) = 2
   \<and> 5 \<le> calculate_ib_bond_fee (- 7) \<and> (- 7 :: real) \<le> 1000000
   \<and> calculate_ib_bond_fee (- 7) = 5
   \<and> 4 \<le> calculate_futu_bond_fee (- 7) \<and> (- 7 :: real) \<le> 2500
   \<and> calculate_futu_bond_fee (- 7) = 4"
  using fee_floors [of "- 7"] by simp

section \<open>The example runs, evaluated\<close>

lemmas engine_defs =
  main_def Let_def calculate_usd_received_def calculate_ib_fx_fee_def
  calculate_ib_bond_fee_def calculate_futu_bond_fee_def
  calculate_ib_money_market_return_def calculate_futu_money_market_return_def
  calculate_hk_money_market_return_def best_ib_def best_futu_usd_def
  usd_method_def hkd_method_def currency_messages_def determine_final_result_def


lemma double_tie_run:
  "main double_tie_inputs (Some 0.5) (Some 0.5) (Some 0.005) ''USD'' = Inr double_tie_outcome"
  by (simp add: engine_defs double_tie_inputs_def double_tie_outcome_def)


lemma zero_capital_run:
  "main zero_capital_inputs (Some 4) (Some 3.5) (Some 0.045) ''USD'' = Inl ZeroDivisionError"
  by (simp add: engine_defs zero_capital_inputs_def)

lemma usd_tie_run:
  "main usd_tie_inputs (Some 0) (Some 0) (Some 0.005) ''USD'' = Inr usd_tie_outcome"
  by (simp add: engine_defs usd_tie_inputs_def usd_tie_outcome_def)

lemma four_way_tie_run:
  "main four_way_tie_inputs (Some 0) (Some 0) (Some 0.005) ''HKD'' = Inr four_way_tie_outcome"
  by (simp add: engine_defs four_way_tie_inputs_def four_way_tie_outcome_def)

section \<open>Properties of the comparison engine\<close>

text \<open>What a successful run of \<^verbatim>\<open>main\<close> says about the variables it produced.\<close>

lemma main_Inr_fields:
  assumes "main u r1 r10 f cur = Inr out"
  shows "(best_ib_return out, best_ib_option out)
           = best_ib (ib_money_market_return out) (ib_bond_return out)"
    and "(best_futu_return_usd out, best_futu_option_usd out)
           = best_futu_usd (futu_money_market_return_usd out) (futu_bond_return out)"
    and "total_ib_return out = usd_received_ib out + best_ib_return out"
    and "total_futu_return_usd out = usd_received_futu out + best_futu_return_usd out"
    and "total_preferential_return out = capital_hkd u + preferential_return out"
    and "total_futu_return_hkd out = capital_hkd u + futu_money_market_return_hkd out"
    and "best_usd_return out = max (total_ib_return out) (total_futu_return_usd out)"
    and "best_hkd_return out = max (total_preferential_return out) (total_futu_return_hkd out)"
    and "best_hkd_return out \<noteq> 0"
    and "exchange_rate_threshold out = best_usd_return out / best_hkd_return out"
    and "best_usd_method out = usd_method (best_usd_return out) (total_ib_return out)
           (best_ib_option out) (best_futu_option_usd out)"
    and "best_hkd_method out = hkd_method (best_hkd_return out) (total_preferential_return out)"
    and "final_result out = determine_final_result (total_ib_return out)
           (total_futu_return_usd out) (total_preferential_return out)
           (total_futu_return_hkd out) (best_ib_option out) (best_futu_option_usd out)"
  using assms unfolding main_def
  by (auto simp: Let_def split: option.splits if_splits sum.splits prod.splits)




lemma best_ib_fst: "fst (best_ib m b) = max m b"
  by (simp add: best_ib_def max_def)

lemma best_ib_snd:
  "snd (best_ib m b) = (if m > b then ''Money Market Fund (USD)'' else ''Bond (USD)'')"
  by (simp add: best_ib_def)

lemma best_futu_usd_fst: "fst (best_futu_usd m b) = max m b"
  by (simp add: best_futu_usd_def max_def)

lemma best_futu_usd_snd:
  "snd (best_futu_usd m b) = (if m > b then ''Money Market Fund (USD)'' else ''Bond (USD)'')"
  by (simp add: best_futu_usd_def)

text \<open>
  Claim C1 says that on equal money-market and bond returns the engine selects the
  Money Market option. In the run \<open>double_tie_inputs\<close> both brokerages have equal
  returns (0 and 0 at IB, 1 and 1 at FUTU) and both options come out as Bond: the test
  \<^verbatim>\<open>>\<close> is false on a tie, so the \<^verbatim>\<open>else\<close> branch is taken.
\<close>

theorem best_of_two_tie_counterexample:
  "main double_tie_inputs (Some 0.5) (Some 0.5) (Some 0.005) ''USD'' = Inr double_tie_outcome
   \<and> ib_money_market_return double_tie_outcome = ib_bond_return double_tie_outcome
   \<and> best_ib_option double_tie_outcome = ''Bond (USD)''
   \<and> futu_money_market_return_usd double_tie_outcome = futu_bond_return double_tie_outcome
   \<and> best_futu_option_usd double_tie_outcome = ''Bond (USD)''"
proof (intro conjI)
  show "main double_tie_inputs (Some 0.5) (Some 0.5) (Some 0.005) ''USD'' = Inr double_tie_outcome"
    by (rule double_tie_run)
qed (simp_all add: double_tie_outcome_def)

text \<open>
  Claim C1, as amended: for IB, and identically for FUTU on the USD side, the engine
  takes the larger of the money-market return and the bond return by return value; it
  selects the Money Market option exactly when the money-market return is strictly
  larger, and on exact equality of the two returns it selects the Bond option.
\<close>

theorem best_of_two_selection:
  assumes "main u r1 r10 f cur = Inr out"
  shows "best_ib_return out = max (ib_money_market_return out) (ib_bond_return out)
       \<and> (best_ib_option out = ''Money Market Fund (USD)''
            \<longleftrightarrow> ib_money_market_return out > ib_bond_return out)
       \<and> (ib_money_market_return out = ib_bond_return out
            \<longrightarrow> best_ib_option out = ''Bond (USD)'')
       \<and> best_futu_return_usd out
            = max (futu_money_market_return_usd out) (futu_bond_return out)
       \<and> (best_futu_option_usd out = ''Money Market Fund (USD)''
            \<longleftrightarrow> futu_money_market_return_usd out > futu_bond_return out)
       \<and> (futu_money_market_return_usd out = futu_bond_return out
            \<longrightarrow> best_futu_option_usd out = ''Bond (USD)'')"
proof -
  have ib: "best_ib_return out = fst (best_ib (ib_money_market_return out) (ib_bond_return out))"
    "best_ib_option out = snd (best_ib (ib_money_market_return out) (ib_bond_return out))"
    using main_Inr_fields(1) [OF assms] by (simp_all add: prod_eq_iff)
  have futu: "best_futu_return_usd out
      = fst (best_futu_usd (futu_money_market_return_usd out) (futu_bond_return out))"
    "best_futu_option_usd out
      = snd (best_futu_usd (futu_money_market_return_usd out) (futu_bond_return out))"
    using main_Inr_fields(2) [OF assms] by (simp_all add: prod_eq_iff)
  show ?thesis
    unfolding ib futu best_ib_fst best_ib_snd best_futu_usd_fst best_futu_usd_snd
    by simp
qed

theorem best_of_two_selection_witness:
  "main double_tie_inputs (Some 0.5) (Some 0.5) (Some 0.005) ''USD'' = Inr double_tie_outcome
   \<and> ib_money_market_return double_tie_outcome = ib_bond_return double_tie_outcome
   \<and> futu_money_market_return_usd double_tie_outcome = futu_bond_return double_tie_outcome
   \<and> best_ib_return double_tie_outcome
       = max (ib_money_market_return double_tie_outcome) (ib_bond_return double_tie_outcome)
   \<and> best_futu_return_usd double_tie_outcome
       = max (futu_money_market_return_usd double_tie_outcome)
           (futu_bond_return double_tie_outcome)
   \<and> best_ib_option double_tie_outcome \<noteq> ''Money Market Fund (USD)''
   \<and> best_futu_option_usd double_tie_outcome \<noteq> ''Money Market Fund (USD)''"
proof -
  have eqs: "ib_money_market_return double_tie_outcome = ib_bond_return double_tie_outcome"
    "futu_money_market_return_usd double_tie_outcome = futu_bond_return double_tie_outcome"
    by (simp_all add: double_tie_outcome_def)
  show ?thesis
    using best_of_two_selection [OF double_tie_run] double_tie_run eqs by simp
qed








text \<open>
  Claim C10 says that on a tie of the two USD totals, where the USD label is IB, the
  overall recommendation resolves to SCB. In the run \<open>usd_tie_inputs\<close> the two USD
  totals are both 1000 and the USD label is IB, but the recommendation is FUTU HK, whose
  total 1038 is strictly the largest.
\<close>

theorem label_tie_fallback_counterexample:
  "main usd_tie_inputs (Some 0) (Some 0) (Some 0.005) ''USD'' = Inr usd_tie_outcome
   \<and> total_ib_return usd_tie_outcome = total_futu_return_usd usd_tie_outcome
   \<and> best_usd_method usd_tie_outcome = ''IB with Money Market Fund (USD)''
   \<and> final_result usd_tie_outcome = ''FUTU HK Money Market Fund offers the better return.''
   \<and> final_result usd_tie_outcome \<noteq> ''SCB Preferential Rate offers the better return.''"
proof (intro conjI)
  show "main usd_tie_inputs (Some 0) (Some 0) (Some 0.005) ''USD'' = Inr usd_tie_outcome"
    by (rule usd_tie_run)
qed (simp_all add: usd_tie_outcome_def)

text \<open>
  Claim C10, as amended: whenever the two USD totals are equal the best-USD method
  reported is IB (with IB's option), and whenever the two HKD totals are equal the
  best-HKD method reported is SCB Preferential Rate. This tie order is independent of
  the overall recommendation: on a tie of the USD totals the recommendation is FUTU HK
  when that total is strictly greater than the others and SCB otherwise; on a tie of the
  HKD totals it is IB or FUTU in USD when that total is strictly greater than the others
  and SCB otherwise; when all four totals are equal it is SCB.
\<close>

theorem method_label_ties:
  assumes "main u r1 r10 f cur = Inr out"
  shows "(total_ib_return out = total_futu_return_usd out \<longrightarrow>
            best_usd_method out = ''IB with '' @ best_ib_option out
            \<and> final_result out =
                (if total_futu_return_hkd out > total_ib_return out
                    \<and> total_futu_return_hkd out > total_preferential_return out
                 then ''FUTU HK Money Market Fund offers the better return.''
                 else ''SCB Preferential Rate offers the better return.''))
       \<and> (total_preferential_return out = total_futu_return_hkd out \<longrightarrow>
            best_hkd_method out = ''SCB Preferential Rate''
            \<and> final_result out =
                (if total_ib_return out > total_futu_return_usd out
                    \<and> total_ib_return out > total_preferential_return out
                 then ''IB offers the better return by investing in ''
                        @ best_ib_option out @ ''.''
                 else if total_futu_return_usd out > total_ib_return out
                    \<and> total_futu_return_usd out > total_preferential_return out
                 then ''FUTU offers the better return by investing in ''
                        @ best_futu_option_usd out @ ''.''
                 else ''SCB Preferential Rate offers the better return.''))
       \<and> (total_ib_return out = total_futu_return_usd out
            \<and> total_preferential_return out = total_futu_return_hkd out
            \<and> total_ib_return out = total_preferential_return out \<longrightarrow>
            best_usd_method out = ''IB with '' @ best_ib_option out
            \<and> best_hkd_method out = ''SCB Preferential Rate''
            \<and> final_result out = ''SCB Preferential Rate offers the better return.'')"
  unfolding main_Inr_fields(11,12,13) [OF assms] main_Inr_fields(7,8) [OF assms]
  by (simp add: usd_method_def hkd_method_def determine_final_result_def)

theorem method_label_ties_witness:
  "main four_way_tie_inputs (Some 0) (Some 0) (Some 0.005) ''HKD'' = Inr four_way_tie_outcome
   \<and> total_ib_return four_way_tie_outcome = total_futu_return_usd four_way_tie_outcome
   \<and> total_preferential_return four_way_tie_outcome = total_futu_return_hkd four_way_tie_outcome
   \<and> total_ib_return four_way_tie_outcome = total_preferential_return four_way_tie_outcome
   \<and> best_usd_method four_way_tie_outcome = ''IB with '' @ best_ib_option four_way_tie_outcome
   \<and> best_hkd_method four_way_tie_outcome = ''SCB Preferential Rate''
   \<and> final_result four_way_tie_outcome = ''SCB Preferential Rate offers the better return.''"
proof -
  have ties: "total_ib_return four_way_tie_outcome = total_futu_return_usd four_way_tie_outcome"
    "total_preferential_return four_way_tie_outcome = total_futu_return_hkd four_way_tie_outcome"
    "total_ib_return four_way_tie_outcome = total_preferential_return four_way_tie_outcome"
    by (simp_all add: four_way_tie_outcome_def)
  show ?thesis
    using method_label_ties [OF four_way_tie_run] four_way_tie_run ties by simp
qed

end
